theory Spec2Isabelle
  imports Complex_Main "HOL-Library.Sublist" "HOL-Library.Char_ord" "HOL-Library.List_Lexorder"
    "HOL-Library.Product_Lexorder"
begin

section \<open>The dataset\<close>

text \<open>
  The dashboard of \<^verbatim>\<open>src/app.py\<close> works on one pandas DataFrame read from a CSV file. A row
  is one company-year observation; the fields are the columns the source refers to by
  name (\<^verbatim>\<open>crescimento_lucro_%\<close> loses its percent sign, which a HOL name cannot hold). A
  DataFrame is the list of its rows in row order. The float64 columns are modelled by
  exact reals: rounding and NaN cells are outside this development. Where pandas returns
  NaN for an aggregate that has no value, the model returns \<open>None\<close>.
\<close>

record row =
  empresa :: string
  pais_sede :: string
  setor :: string
  ano :: int
  investimento_ia_usd_milhoes :: real
  crescimento_lucro :: real
  nota_inovacao :: real
  principais_usos_ia :: string
  impacto_operacional :: string

type_synonym dataframe = "row list"

section \<open>Series operations of pandas used by the source\<close>

text \<open>\<^verbatim>\<open>Series.unique()\<close>: the distinct values in order of first appearance.\<close>

fun unique_from :: "'a list \<Rightarrow> 'a list \<Rightarrow> 'a list" where
  "unique_from seen [] = []"
| "unique_from seen (x # xs) =
     (if x \<in> set seen then unique_from seen xs else x # unique_from (x # seen) xs)"

definition unique :: "'a list \<Rightarrow> 'a list" where
  "unique xs = unique_from [] xs"

text \<open>\<^verbatim>\<open>Series.nunique()\<close>: the number of distinct values.\<close>

definition nunique :: "'a list \<Rightarrow> nat" where
  "nunique xs = length (unique xs)"

text \<open>
  \<^verbatim>\<open>Series.min()\<close> and \<^verbatim>\<open>Series.max()\<close>: NaN (here \<open>None\<close>) on an empty series.
\<close>

definition series_min :: "int list \<Rightarrow> int option" where
  "series_min xs = (case xs of [] \<Rightarrow> None | x # ys \<Rightarrow> Some (fold min ys x))"

definition series_max :: "int list \<Rightarrow> int option" where
  "series_max xs = (case xs of [] \<Rightarrow> None | x # ys \<Rightarrow> Some (fold max ys x))"

text \<open>\<^verbatim>\<open>Series.sum()\<close> is \<open>sum_list\<close>; \<^verbatim>\<open>Series.mean()\<close> is NaN on an empty series.\<close>

definition mean :: "real list \<Rightarrow> real option" where
  "mean xs = (if xs = [] then None else Some (sum_list xs / real (length xs)))"

section \<open>The filter\<close>

text \<open>
  \<^verbatim>\<open>filter_data(df, countries, sectors, year_range)\<close>: the boolean mask is the conjunction
  of the four column tests, and \<^verbatim>\<open>df[mask]\<close> keeps the rows where it is true, in row
  order. \<^verbatim>\<open>isin\<close> takes any list-like; the selections are lists, used as sets.
  \<^verbatim>\<open>year_range\<close> is the pair the slider returns.
\<close>

definition filter_data :: "dataframe \<Rightarrow> string list \<Rightarrow> string list \<Rightarrow> int \<times> int \<Rightarrow> dataframe" where
  "filter_data df countries sectors year_range =
     filter (\<lambda>r. pais_sede r \<in> set countries \<and>
                 setor r \<in> set sectors \<and>
                 ano r \<ge> fst year_range \<and>
                 ano r \<le> snd year_range) df"

section \<open>Pages and errors\<close>

text \<open>
  The four entries of the navigation selectbox, and the one exception a page raises.
  The selections of the sidebar are what the user chose; they are arguments of the
  functions below.
\<close>

datatype page = Visao_Geral | Analise_por_Empresa | Analise_por_Setor | Tendencias_Temporais

datatype py_error = ValueError

section \<open>Grouping, ranking and counting\<close>

text \<open>
  \<^verbatim>\<open>df.groupby(key)[val].sum().reset_index()\<close>: one line per distinct key, the keys in
  ascending order (\<^verbatim>\<open>sort=True\<close> is the default of \<^verbatim>\<open>groupby\<close>), each with the sum of
  the values of its rows. Strings are ordered as Python orders them, character by
  character.
\<close>

definition groupby_sum :: "(row \<Rightarrow> 'k::linorder) \<Rightarrow> (row \<Rightarrow> real) \<Rightarrow> dataframe \<Rightarrow> ('k \<times> real) list" where
  "groupby_sum key val df =
     map (\<lambda>k. (k, sum_list (map val (filter (\<lambda>r. key r = k) df)))) (sort (unique (map key df)))"

text \<open>
  \<^verbatim>\<open>Series.nlargest(n)\<close> with the default \<^verbatim>\<open>keep='first'\<close>: the \<open>n\<close> largest values,
  largest first, equal values in the order they have in the series.
\<close>

definition nlargest :: "nat \<Rightarrow> ('k \<times> real) list \<Rightarrow> ('k \<times> real) list" where
  "nlargest n s = take n (sort_key (\<lambda>kv. - snd kv) s)"

text \<open>
  \<^verbatim>\<open>Series.value_counts().reset_index()\<close>: each distinct value with its number of
  occurrences, most frequent first.
\<close>

definition value_counts :: "'a list \<Rightarrow> ('a \<times> nat) list" where
  "value_counts xs =
     sort_key (\<lambda>vc. - int (snd vc)) (map (\<lambda>v. (v, count_list xs v)) (unique xs))"

text \<open>
  \<^verbatim>\<open>px.pie(df, names=..., values=...)\<close>: plotly draws one slice per distinct name; rows
  with the same name are joined into one slice whose value is the sum of theirs.
\<close>

definition px_pie :: "string list \<Rightarrow> real list \<Rightarrow> (string \<times> real) list" where
  "px_pie names vals =
     map (\<lambda>n. (n, sum_list (map snd (filter (\<lambda>nv. fst nv = n) (zip names vals))))) (unique names)"

section \<open>Correlation\<close>

text \<open>
  \<^verbatim>\<open>DataFrame.corr()\<close> is Pearson's coefficient for every pair of columns, with
  \<^verbatim>\<open>min_periods=1\<close>: from the sums of squared deviations from the mean of the two columns
  and the sum of the products of their deviations; NaN when there is no observation or
  when the divisor is zero.
\<close>

definition ssqdm :: "real list \<Rightarrow> real" where
  "ssqdm xs = (let m = sum_list xs / real (length xs) in sum_list (map (\<lambda>x. (x - m)\<^sup>2) xs))"

definition pearson :: "real list \<Rightarrow> real list \<Rightarrow> real option" where
  "pearson xs ys =
     (let nobs = length xs;
          meanx = sum_list xs / real nobs;
          meany = sum_list ys / real nobs;
          covxy = sum_list (map (\<lambda>xy. (fst xy - meanx) * (snd xy - meany)) (zip xs ys));
          divisor = sqrt (ssqdm xs * ssqdm ys)
      in if nobs < 1 then None
         else if divisor \<noteq> 0 then Some (covxy / divisor)
         else None)"

definition corr :: "real list list \<Rightarrow> real option list list" where
  "corr cols = map (\<lambda>x. map (\<lambda>y. pearson x y) cols) cols"

text \<open>\<^verbatim>\<open>Series.var()\<close>, the sample variance: NaN with fewer than two observations.\<close>

definition series_var :: "real list \<Rightarrow> real option" where
  "series_var xs =
     (if length xs < 2 then None else Some (ssqdm xs / (real (length xs) - 1)))"

text \<open>
  \<^verbatim>\<open>select_dtypes(include=["float64", "int64"])\<close>: the numeric columns of the frame, which
  are the year, the investment, the profit growth and the innovation score.
\<close>

definition numeric_cols :: "dataframe \<Rightarrow> real list list" where
  "numeric_cols df =
     [map (\<lambda>r. real_of_int (ano r)) df,
      map investimento_ia_usd_milhoes df,
      map crescimento_lucro df,
      map nota_inovacao df]"

section \<open>The pages\<close>

text \<open>
  A page is the list of the Streamlit elements it emits, in order. The labels and the
  number formats are left out; a metric carries the value it shows and a chart the
  table it is drawn from.
\<close>

datatype metric = Money real | Count nat | Average "real option"

datatype notice = No_company_data | No_sector_data

datatype chart =
    Line_by_year "(int \<times> real) list"
  | Bar_top "(string \<times> real) list"
  | Pie "(string \<times> real) list"
  | Dual_axis "(int \<times> real) list" "(int \<times> real) list"
  | Bar_counts "(string \<times> nat) list"
  | Scatter "(string \<times> real \<times> real \<times> real) list"
  | Pie_counts "(string \<times> nat) list"
  | Line_by_sector "((string \<times> int) \<times> real) list"
  | Heatmap "real option list list"

datatype ui =
    Header page
  | Subheader
  | Markdown
  | Selectbox "string list"
  | Warning notice
  | Metric metric
  | Plotly_chart chart

definition top_companies :: "dataframe \<Rightarrow> (string \<times> real) list" where
  "top_companies filtered_df = nlargest 10 (groupby_sum empresa investimento_ia_usd_milhoes filtered_df)"

definition render_overview_page :: "dataframe \<Rightarrow> ui list" where
  "render_overview_page filtered_df =
     [Header Visao_Geral,
      Metric (Money (sum_list (map investimento_ia_usd_milhoes filtered_df))),
      Metric (Count (nunique (map empresa filtered_df))),
      Metric (Average (mean (map crescimento_lucro filtered_df))),
      Markdown,
      Subheader,
      Plotly_chart (Line_by_year (groupby_sum ano investimento_ia_usd_milhoes filtered_df)),
      Subheader,
      Plotly_chart (Bar_top (top_companies filtered_df)),
      Subheader,
      Plotly_chart (Pie (px_pie (map setor filtered_df)
                                (map investimento_ia_usd_milhoes filtered_df)))]"

text \<open>
  \<^verbatim>\<open>st.selectbox\<close> returns the option the user chose, or \<^verbatim>\<open>None\<close> when it has no
  option; the choice is an argument of the page. Comparing the column with \<^verbatim>\<open>None\<close>
  is false on every row.
\<close>

definition render_company_page :: "dataframe \<Rightarrow> string option \<Rightarrow> ui list" where
  "render_company_page filtered_df selected_company =
     (let df_company = filter (\<lambda>r. Some (empresa r) = selected_company) filtered_df
      in [Header Analise_por_Empresa, Selectbox (unique (map empresa filtered_df))] @
         (if df_company = [] then [Warning No_company_data]
          else [Metric (Average (mean (map investimento_ia_usd_milhoes df_company))),
                Metric (Average (mean (map crescimento_lucro df_company))),
                Markdown,
                Subheader,
                Plotly_chart (Dual_axis
                  (map (\<lambda>r. (ano r, investimento_ia_usd_milhoes r)) df_company)
                  (map (\<lambda>r. (ano r, crescimento_lucro r)) df_company)),
                Subheader,
                Plotly_chart (Bar_counts (value_counts (map principais_usos_ia df_company)))]))"

text \<open>
  The sector page. \<^verbatim>\<open>px.scatter(..., size="nota_inovacao")\<close> builds markers whose size is
  the innovation score, and plotly refuses a negative marker size with a
  \<^verbatim>\<open>ValueError\<close>: the page raises there when a row of the sector has a negative score.
  An exception is the result \<open>Inl\<close>; the elements emitted before it are not kept.
\<close>

definition render_sector_page :: "dataframe \<Rightarrow> string option \<Rightarrow> py_error + ui list" where
  "render_sector_page filtered_df selected_sector =
     (let df_sector = filter (\<lambda>r. Some (setor r) = selected_sector) filtered_df
      in if df_sector = [] then
           Inr [Header Analise_por_Setor, Selectbox (unique (map setor filtered_df)),
                Warning No_sector_data]
         else if list_ex (\<lambda>r. nota_inovacao r < 0) df_sector then Inl ValueError
         else
           Inr [Header Analise_por_Setor, Selectbox (unique (map setor filtered_df)),
                Metric (Money (sum_list (map investimento_ia_usd_milhoes df_sector))),
                Metric (Count (nunique (map empresa df_sector))),
                Metric (Average (mean (map nota_inovacao df_sector))),
                Markdown,
                Subheader,
                Plotly_chart (Scatter
                  (map (\<lambda>r. (empresa r, investimento_ia_usd_milhoes r, crescimento_lucro r,
                             nota_inovacao r)) df_sector)),
                Subheader,
                Plotly_chart (Pie_counts (value_counts (map impacto_operacional df_sector)))])"

definition render_trends_page :: "dataframe \<Rightarrow> ui list" where
  "render_trends_page filtered_df =
     [Header Tendencias_Temporais,
      Subheader,
      Plotly_chart (Line_by_sector
        (groupby_sum (\<lambda>r. (setor r, ano r)) investimento_ia_usd_milhoes filtered_df)),
      Subheader,
      Plotly_chart (Heatmap (corr (numeric_cols filtered_df)))]"

text \<open>
  \<^verbatim>\<open>main()\<close> after the dataset is loaded and the sidebar has returned the user's
  selections: filter, then render the selected page.
\<close>

definition main :: "dataframe \<Rightarrow> string list \<Rightarrow> string list \<Rightarrow> int \<times> int \<Rightarrow> page
    \<Rightarrow> string option \<Rightarrow> py_error + ui list" where
  "main df countries sectors year_range pg selected =
     (let filtered_df = filter_data df countries sectors year_range
      in case pg of
           Visao_Geral \<Rightarrow> Inr (render_overview_page filtered_df)
         | Analise_por_Empresa \<Rightarrow> Inr (render_company_page filtered_df selected)
         | Analise_por_Setor \<Rightarrow> render_sector_page filtered_df selected
         | Tendencias_Temporais \<Rightarrow> Inr (render_trends_page filtered_df))"

section \<open>Example rows\<close>

definition ex_A :: row where
  "ex_A = \<lparr>empresa = ''A'', pais_sede = ''Brasil'', setor = ''Finance'', ano = 2020,
          investimento_ia_usd_milhoes = 10, crescimento_lucro = 5, nota_inovacao = 7,
          principais_usos_ia = ''Chatbots'', impacto_operacional = ''Alto''\<rparr>"

definition ex_B :: row where
  "ex_B = \<lparr>empresa = ''B'', pais_sede = ''Chile'', setor = ''Finance'', ano = 2021,
          investimento_ia_usd_milhoes = 20, crescimento_lucro = - 2, nota_inovacao = 8,
          principais_usos_ia = ''Fraude'', impacto_operacional = ''Baixo''\<rparr>"

definition ex_C :: row where
  "ex_C = \<lparr>empresa = ''C'', pais_sede = ''Brasil'', setor = ''Saude'', ano = 2019,
          investimento_ia_usd_milhoes = 4, crescimento_lucro = 1, nota_inovacao = 6,
          principais_usos_ia = ''Triagem'', impacto_operacional = ''Medio''\<rparr>"

section \<open>Facts about the series operations\<close>

lemma set_unique_from: "set (unique_from seen xs) = set xs - set seen"
  by (induction xs arbitrary: seen) auto

lemma set_unique: "set (unique xs) = set xs"
  by (simp add: unique_def set_unique_from)

lemma distinct_unique_from: "distinct (unique_from seen xs)"
  by (induction xs arbitrary: seen) (auto simp: set_unique_from)

lemma distinct_unique: "distinct (unique xs)"
  by (simp add: unique_def distinct_unique_from)

lemma nunique_card: "nunique xs = card (set xs)"
  using distinct_card [OF distinct_unique, of xs] by (simp add: nunique_def set_unique)

lemma fold_min_le: "fold min ys (x::int) \<le> x \<and> (\<forall>y\<in>set ys. fold min ys x \<le> y)"
proof (induction ys arbitrary: x)
  case Nil
  show ?case by simp
next
  case (Cons y ys)
  have "fold min ys (min y x) \<le> min y x"
    using Cons.IH [of "min y x"] by blast
  moreover have "\<forall>z\<in>set ys. fold min ys (min y x) \<le> z"
    using Cons.IH [of "min y x"] by blast
  ultimately show ?case by auto
qed

lemma fold_max_ge: "x \<le> fold max ys (x::int) \<and> (\<forall>y\<in>set ys. y \<le> fold max ys x)"
proof (induction ys arbitrary: x)
  case Nil
  show ?case by simp
next
  case (Cons y ys)
  have "max y x \<le> fold max ys (max y x)"
    using Cons.IH [of "max y x"] by blast
  moreover have "\<forall>z\<in>set ys. z \<le> fold max ys (max y x)"
    using Cons.IH [of "max y x"] by blast
  ultimately show ?case by auto
qed

lemma series_min_lower: "series_min xs = Some lo \<Longrightarrow> x \<in> set xs \<Longrightarrow> lo \<le> x"
  using fold_min_le by (cases xs) (auto simp: series_min_def)

lemma series_max_upper: "series_max xs = Some hi \<Longrightarrow> x \<in> set xs \<Longrightarrow> x \<le> hi"
  using fold_max_ge by (cases xs) (auto simp: series_max_def)

lemma series_min_None: "series_min xs = None \<longleftrightarrow> xs = []"
  by (cases xs) (simp_all add: series_min_def)

lemma series_max_None: "series_max xs = None \<longleftrightarrow> xs = []"
  by (cases xs) (simp_all add: series_max_def)

section \<open>The filter: what it keeps\<close>

lemma filter_data_set:
  "set (filter_data df cs ss yr) =
     {r \<in> set df. pais_sede r \<in> set cs \<and> setor r \<in> set ss \<and> fst yr \<le> ano r \<and> ano r \<le> snd yr}"
  by (auto simp: filter_data_def)

lemma filter_data_all:
  "(\<And>r. r \<in> set df \<Longrightarrow> pais_sede r \<in> set cs \<and> setor r \<in> set ss \<and> fst yr \<le> ano r \<and> ano r \<le> snd yr)
     \<Longrightarrow> filter_data df cs ss yr = df"
  unfolding filter_data_def by (rule filter_True) auto

text \<open>
  C1. Soundness and completeness of the filter: every row of the output has its country
  among the selected countries, its sector among the selected sectors and its year
  between the two bounds (both included); and every row of the input that passes the
  three tests is in the output. This holds for every pair of bounds, in particular
  for those with \<open>lo \<le> hi\<close>.
\<close>

theorem filter_data_sound_complete:
  "(\<forall>r \<in> set (filter_data df countries sectors (lo, hi)).
       pais_sede r \<in> set countries \<and> setor r \<in> set sectors \<and> lo \<le> ano r \<and> ano r \<le> hi)
   \<and> (\<forall>r \<in> set df.
       pais_sede r \<in> set countries \<and> setor r \<in> set sectors \<and> lo \<le> ano r \<and> ano r \<le> hi
         \<longrightarrow> r \<in> set (filter_data df countries sectors (lo, hi)))"
  by (simp add: filter_data_set)

theorem filter_data_sound_complete_witness:
  "ex_A \<in> set (filter_data [ex_C, ex_A, ex_B] [''Brasil''] [''Finance'', ''Saude''] (2020, 2021))
   \<and> pais_sede ex_A \<in> set [''Brasil''] \<and> setor ex_A \<in> set [''Finance'', ''Saude'']
   \<and> 2020 \<le> ano ex_A \<and> ano ex_A \<le> 2021
   \<and> ex_A \<in> set [ex_C, ex_A, ex_B]
   \<and> filter_data [ex_C, ex_A, ex_B] [''Brasil''] [''Finance'', ''Saude''] (2020, 2021) = [ex_A]"
  using filter_data_sound_complete
    [of "[ex_C, ex_A, ex_B]" "[''Brasil'']" "[''Finance'', ''Saude'']" 2020 2021]
  by (simp add: filter_data_def ex_A_def ex_B_def ex_C_def)

text \<open>
  C2. The identity case: with every country of the dataset selected, every sector of
  the dataset selected and the interval from the smallest to the largest year of the
  dataset, the filter returns the dataset as it is. An empty dataset has no smallest
  or largest year; the filter returns it as it is for any interval.
\<close>

theorem filter_data_identity:
  assumes "df \<noteq> [] \<Longrightarrow> series_min (map ano df) = Some lo \<and> series_max (map ano df) = Some hi"
  shows "filter_data df (unique (map pais_sede df)) (unique (map setor df)) (lo, hi) = df"
proof (rule filter_data_all)
  fix r
  assume r: "r \<in> set df"
  then have ne: "df \<noteq> []" by auto
  have y: "ano r \<in> set (map ano df)" using r by simp
  have "lo \<le> ano r" using assms [OF ne] y series_min_lower by blast
  moreover have "ano r \<le> hi" using assms [OF ne] y series_max_upper by blast
  ultimately show "pais_sede r \<in> set (unique (map pais_sede df)) \<and>
      setor r \<in> set (unique (map setor df)) \<and> fst (lo, hi) \<le> ano r \<and> ano r \<le> snd (lo, hi)"
    using r by (simp add: set_unique)
qed

theorem filter_data_identity_witness:
  "[ex_C, ex_A, ex_B] \<noteq> []
   \<and> series_min (map ano [ex_C, ex_A, ex_B]) = Some 2019
   \<and> series_max (map ano [ex_C, ex_A, ex_B]) = Some 2021
   \<and> unique (map pais_sede [ex_C, ex_A, ex_B]) = [''Brasil'', ''Chile'']
   \<and> filter_data [ex_C, ex_A, ex_B] (unique (map pais_sede [ex_C, ex_A, ex_B]))
        (unique (map setor [ex_C, ex_A, ex_B])) (2019, 2021) = [ex_C, ex_A, ex_B]"
  using filter_data_identity [of "[ex_C, ex_A, ex_B]" 2019 2021]
  by (simp add: series_min_def series_max_def unique_def ex_A_def ex_B_def ex_C_def)

text \<open>
  C3. An empty selection of countries gives no row, and so does an empty selection of
  sectors, whatever the dataset and the interval of years: the filter has no
  select-all fallback.
\<close>

theorem filter_data_empty_selection:
  "filter_data df [] sectors year_range = [] \<and> filter_data df countries [] year_range = []"
  by (simp add: filter_data_def)

text \<open>
  C4. The filter is a function of its four arguments alone, and filtering a filtered
  dataset again with the same selections changes nothing.
\<close>

theorem filter_data_idempotent:
  "filter_data (filter_data d c s y) c s y = filter_data d c s y"
  by (simp add: filter_data_def)

text \<open>
  C10. The output of the filter is a subsequence of the input: its rows are rows of the
  input, whole, in the order they have there.
\<close>

theorem filter_data_subseq:
  "subseq (filter_data df countries sectors year_range) df"
  by (simp add: filter_data_def)

section \<open>The overview page\<close>

text \<open>
  C9. The example of the specification: company A (Finance, 2020, 10 million invested,
  5 percent growth) and company B (Finance, 2021, 20 million invested, -2 percent
  growth), whatever their other fields. With the sector Finance, the years 2020 to 2021
  and every country of the dataset selected, the filter returns both rows, and the
  overview page shows a total of 30 million, 2 companies and a mean growth of 1.5
  percent.
\<close>

theorem example_scenario:
  "(let A = \<lparr>empresa = ''A'', pais_sede = cA, setor = ''Finance'', ano = 2020,
              investimento_ia_usd_milhoes = 10, crescimento_lucro = 5, nota_inovacao = nA,
              principais_usos_ia = uA, impacto_operacional = iA\<rparr>;
        B = \<lparr>empresa = ''B'', pais_sede = cB, setor = ''Finance'', ano = 2021,
              investimento_ia_usd_milhoes = 20, crescimento_lucro = - 2, nota_inovacao = nB,
              principais_usos_ia = uB, impacto_operacional = iB\<rparr>;
        df = [A, B];
        filtered_df = filter_data df (unique (map pais_sede df)) [''Finance''] (2020, 2021)
    in filtered_df = df \<and>
       take 4 (render_overview_page filtered_df) =
         [Header Visao_Geral, Metric (Money 30), Metric (Count 2), Metric (Average (Some (3/2)))])"
  by (simp add: Let_def filter_data_def set_unique render_overview_page_def nunique_def unique_def mean_def)

lemma length_top_companies:
  "length (top_companies filtered_df) = min 10 (nunique (map empresa filtered_df))"
  by (simp add: top_companies_def nlargest_def groupby_sum_def nunique_def min.commute)

lemma set_groupby_sum_keys: "fst ` set (groupby_sum key val df) = key ` set df"
  by (force simp: groupby_sum_def set_unique)

lemma groupby_sum_values:
  "kv \<in> set (groupby_sum key val df) \<Longrightarrow>
     snd kv = sum_list (map val (filter (\<lambda>r. key r = fst kv) df)) \<and> fst kv \<in> key ` set df"
  by (auto simp: groupby_sum_def set_unique)

lemma distinct_groupby_sum_keys: "distinct (map fst (groupby_sum key val df))"
  by (simp add: groupby_sum_def comp_def distinct_unique)

lemma set_top_companies_subset:
  "set (top_companies df) \<subseteq> set (groupby_sum empresa investimento_ia_usd_milhoes df)"
  unfolding top_companies_def nlargest_def
  using set_take_subset [of 10 "sort_key (\<lambda>kv. - snd kv) (groupby_sum empresa investimento_ia_usd_milhoes df)"]
  by simp

lemma top_companies_values:
  "cv \<in> set (top_companies df) \<Longrightarrow>
     snd cv = sum_list (map investimento_ia_usd_milhoes (filter (\<lambda>r. empresa r = fst cv) df))"
  using set_top_companies_subset [of df] groupby_sum_values [of cv empresa investimento_ia_usd_milhoes df]
  by blast

lemma sorted_top_companies:
  "sorted_wrt (\<lambda>a b. snd a \<ge> snd b) (top_companies df)"
proof -
  let ?g = "groupby_sum empresa investimento_ia_usd_milhoes df"
  have "sorted (map (\<lambda>kv. - snd kv) (sort_key (\<lambda>kv. - snd kv) ?g))"
    by (rule sorted_sort_key)
  then have "sorted_wrt (\<lambda>a b. snd a \<ge> snd b) (sort_key (\<lambda>kv. - snd kv) ?g)"
    by (simp add: sorted_wrt_map)
  then show ?thesis
    unfolding top_companies_def nlargest_def by (rule sorted_wrt_take)
qed

text \<open>
  A company of the filtered set that is left out of the list has a total no larger than
  any total in the list.
\<close>

lemma top_companies_largest:
  assumes r: "r \<in> set df" and out: "empresa r \<notin> fst ` set (top_companies df)"
    and cv: "cv \<in> set (top_companies df)"
  shows "sum_list (map investimento_ia_usd_milhoes (filter (\<lambda>q. empresa q = empresa r) df)) \<le> snd cv"
proof -
  let ?g = "groupby_sum empresa investimento_ia_usd_milhoes df"
  let ?s = "sort_key (\<lambda>kv. - snd kv) ?g"
  let ?t = "sum_list (map investimento_ia_usd_milhoes (filter (\<lambda>q. empresa q = empresa r) df))"
  have "(empresa r, ?t) \<in> set ?g"
    using r by (auto simp: groupby_sum_def set_unique)
  moreover have "set (take 10 ?s) \<union> set (drop 10 ?s) = set ?g"
    by (metis append_take_drop_id set_append set_sort)
  moreover have "(empresa r, ?t) \<notin> set (take 10 ?s)"
    using out by (force simp: top_companies_def nlargest_def)
  ultimately have d: "(empresa r, ?t) \<in> set (drop 10 ?s)" by blast
  have "sorted (map (\<lambda>kv. - snd kv) (take 10 ?s) @ map (\<lambda>kv. - snd kv) (drop 10 ?s))"
    using sorted_sort_key [of "\<lambda>kv. - snd kv" ?g]
    by (metis append_take_drop_id map_append)
  then have "\<forall>a \<in> set (take 10 ?s). \<forall>b \<in> set (drop 10 ?s). - snd a \<le> - snd b"
    unfolding sorted_append by auto
  moreover have "cv \<in> set (take 10 ?s)"
    using cv by (simp add: top_companies_def nlargest_def)
  ultimately have "- snd cv \<le> - snd (empresa r, ?t)"
    using d by blast
  then show ?thesis by simp
qed

text \<open>
  C5. The ten largest companies of the overview page: at most ten lines; each line
  carries a company and the sum of the investment of the rows of that company in the
  filtered set; the lines are in descending order of that sum; and every company in the
  list is the company of some row of the filtered set.
\<close>

theorem top_companies_ok:
  "length (top_companies filtered_df) \<le> 10
   \<and> sorted_wrt (\<lambda>a b. snd a \<ge> snd b) (top_companies filtered_df)
   \<and> (\<forall>c \<in> fst ` set (top_companies filtered_df). \<exists>r \<in> set filtered_df. empresa r = c)
   \<and> (\<forall>cv \<in> set (top_companies filtered_df).
         snd cv = sum_list (map investimento_ia_usd_milhoes
                     (filter (\<lambda>r. empresa r = fst cv) filtered_df)))
   \<and> sorted_wrt (\<ge>)
        (map (\<lambda>c. sum_list (map investimento_ia_usd_milhoes
                     (filter (\<lambda>r. empresa r = c) filtered_df)))
             (map fst (top_companies filtered_df)))"
proof -
  let ?total = "\<lambda>c. sum_list (map investimento_ia_usd_milhoes (filter (\<lambda>r. empresa r = c) filtered_df))"
  have len: "length (top_companies filtered_df) \<le> 10"
    by (simp add: top_companies_def nlargest_def)
  have s: "sorted_wrt (\<lambda>a b. snd a \<ge> snd b) (top_companies filtered_df)"
    by (rule sorted_top_companies)
  have v: "\<forall>cv \<in> set (top_companies filtered_df). snd cv = ?total (fst cv)"
    using top_companies_values by blast
  have "fst ` set (top_companies filtered_df) \<subseteq> empresa ` set filtered_df"
    using set_top_companies_subset [of filtered_df]
      set_groupby_sum_keys [of empresa investimento_ia_usd_milhoes filtered_df] by blast
  then have m: "\<forall>c \<in> fst ` set (top_companies filtered_df). \<exists>r \<in> set filtered_df. empresa r = c"
    by (metis (no_types, lifting) image_iff subsetD)
  have "sorted_wrt (\<lambda>a b. ?total (fst a) \<ge> ?total (fst b)) (top_companies filtered_df)"
    using s by (rule sorted_wrt_mono_rel [rotated]) (use v in auto)
  then have t: "sorted_wrt (\<ge>) (map ?total (map fst (top_companies filtered_df)))"
    by (simp add: sorted_wrt_map)
  from len s m v t show ?thesis by blast
qed

theorem top_companies_ok_witness:
  "top_companies [ex_C, ex_A, ex_B, ex_A] = [(''A'', 20), (''B'', 20), (''C'', 4)]
   \<and> length (top_companies [ex_C, ex_A, ex_B, ex_A]) \<le> 10
   \<and> ''B'' \<in> fst ` set (top_companies [ex_C, ex_A, ex_B, ex_A])
   \<and> (\<exists>r \<in> set [ex_C, ex_A, ex_B, ex_A]. empresa r = ''B'')
   \<and> (''A'', 20) \<in> set (top_companies [ex_C, ex_A, ex_B, ex_A])
   \<and> sum_list (map investimento_ia_usd_milhoes
        (filter (\<lambda>r. empresa r = ''A'') [ex_C, ex_A, ex_B, ex_A])) = 20"
  using top_companies_ok [of "[ex_C, ex_A, ex_B, ex_A]"]
  by (simp add: top_companies_def nlargest_def groupby_sum_def unique_def
        ex_A_def ex_B_def ex_C_def)

lemma sum_list_if_distinct:
  "distinct ks \<Longrightarrow> sum_list (map (\<lambda>k. if a = k then (c::real) else 0) ks) = (if a \<in> set ks then c else 0)"
  by (induction ks) auto

lemma sum_list_groups:
  "distinct ks \<Longrightarrow>
     sum_list (map (\<lambda>k. sum_list (map (g::'a \<Rightarrow> real) (filter (\<lambda>r. f r = k) df))) ks)
       = sum_list (map g (filter (\<lambda>r. f r \<in> set ks) df))"
proof (induction df)
  case Nil
  show ?case by simp
next
  case (Cons r df)
  have "sum_list (map (\<lambda>k. sum_list (map g (filter (\<lambda>r. f r = k) (r # df)))) ks)
      = sum_list (map (\<lambda>k. (if f r = k then g r else 0) + sum_list (map g (filter (\<lambda>r. f r = k) df))) ks)"
    by (rule arg_cong [where f = sum_list], rule map_cong) auto
  also have "\<dots> = sum_list (map (\<lambda>k. if f r = k then g r else 0) ks)
                   + sum_list (map (\<lambda>k. sum_list (map g (filter (\<lambda>r. f r = k) df))) ks)"
    by (simp add: sum_list_addf)
  also have "\<dots> = (if f r \<in> set ks then g r else 0) + sum_list (map g (filter (\<lambda>r. f r \<in> set ks) df))"
    using Cons by (simp add: sum_list_if_distinct)
  finally show ?case by simp
qed

lemma px_pie_rows:
  "px_pie (map f df) (map g df) =
     map (\<lambda>n. (n, sum_list (map g (filter (\<lambda>r. f r = n) df)))) (unique (map f df))"
proof -
  have z: "zip (map f df) (map g df) = map (\<lambda>r. (f r, g r)) df"
    by (induction df) auto
  show ?thesis
    by (simp add: px_pie_def z filter_map comp_def)
qed

text \<open>
  C6. The slices of the sector pie of the overview page: each sector of the filtered
  set has one slice, whose value is the sum of the investment of the rows of that
  sector, and the values of the slices add up to the total investment of the filtered
  set, which is the first metric of the page.
\<close>

theorem sector_shares_sum:
  "px_pie (map setor filtered_df) (map investimento_ia_usd_milhoes filtered_df) =
     map (\<lambda>s. (s, sum_list (map investimento_ia_usd_milhoes (filter (\<lambda>r. setor r = s) filtered_df))))
         (unique (map setor filtered_df))
   \<and> sum_list (map snd (px_pie (map setor filtered_df) (map investimento_ia_usd_milhoes filtered_df)))
       = sum_list (map investimento_ia_usd_milhoes filtered_df)"
proof -
  have "sum_list (map snd (px_pie (map setor filtered_df) (map investimento_ia_usd_milhoes filtered_df)))
      = sum_list (map (\<lambda>s. sum_list (map investimento_ia_usd_milhoes (filter (\<lambda>r. setor r = s) filtered_df)))
           (unique (map setor filtered_df)))"
    by (simp add: px_pie_rows comp_def)
  also have "\<dots> = sum_list (map investimento_ia_usd_milhoes
                       (filter (\<lambda>r. setor r \<in> set (unique (map setor filtered_df))) filtered_df))"
    by (rule sum_list_groups) (rule distinct_unique)
  also have "\<dots> = sum_list (map investimento_ia_usd_milhoes filtered_df)"
    by (simp add: set_unique)
  finally show ?thesis by (simp add: px_pie_rows)
qed

section \<open>The company and sector pages\<close>

text \<open>
  C8. When the selected company has no row in the filtered set, the company page emits
  its header, the selectbox and the notice, and nothing else: no metric, no chart. The
  sector page does the same for a selected sector with no row, and returns normally
  (\<open>Inr\<close>): neither page raises on this branch.
\<close>

theorem drill_down_no_data:
  "(filter (\<lambda>r. Some (empresa r) = selected) filtered_df = [] \<longrightarrow>
      render_company_page filtered_df selected =
        [Header Analise_por_Empresa, Selectbox (unique (map empresa filtered_df)),
         Warning No_company_data])
   \<and> (filter (\<lambda>r. Some (setor r) = selected) filtered_df = [] \<longrightarrow>
      render_sector_page filtered_df selected =
        Inr [Header Analise_por_Setor, Selectbox (unique (map setor filtered_df)),
             Warning No_sector_data])"
  by (simp add: render_company_page_def render_sector_page_def)

theorem drill_down_no_data_witness:
  "filter (\<lambda>r. Some (empresa r) = Some ''B'') [ex_A] = []
   \<and> render_company_page [ex_A] (Some ''B'') =
        [Header Analise_por_Empresa, Selectbox [''A''], Warning No_company_data]
   \<and> filter (\<lambda>r. Some (setor r) = Some ''B'') [ex_A] = []
   \<and> render_sector_page [ex_A] (Some ''B'') =
        Inr [Header Analise_por_Setor, Selectbox [''Finance''], Warning No_sector_data]"
  using drill_down_no_data [where selected = "Some ''B''" and filtered_df = "[ex_A]"]
  by (simp add: unique_def ex_A_def)

text \<open>
  The selectbox offers the companies of the filtered set, so a company chosen from it
  has a row; with no row in the filtered set the selectbox has no option and returns
  \<^verbatim>\<open>None\<close>, and the page run from \<open>main\<close> ends on the notice.
\<close>

lemma selected_company_has_rows:
  "c \<in> set (unique (map empresa filtered_df)) \<Longrightarrow>
     filter (\<lambda>r. Some (empresa r) = Some c) filtered_df \<noteq> []"
  by (auto simp: set_unique filter_empty_conv)

lemma main_company_page_no_rows:
  "filter_data df countries sectors year_range = [] \<Longrightarrow>
     main df countries sectors year_range Analise_por_Empresa None =
       Inr [Header Analise_por_Empresa, Selectbox [], Warning No_company_data]"
  by (simp add: main_def render_company_page_def unique_def)

lemma main_sector_page_no_rows:
  "filter_data df countries sectors year_range = [] \<Longrightarrow>
     main df countries sectors year_range Analise_por_Setor None =
       Inr [Header Analise_por_Setor, Selectbox [], Warning No_sector_data]"
  by (simp add: main_def render_sector_page_def unique_def)

lemma render_sector_page_negative_score:
  "render_sector_page [ex_A\<lparr>nota_inovacao := - 1\<rparr>] (Some ''Finance'') = Inl ValueError"
  by (simp add: render_sector_page_def ex_A_def)

lemma render_sector_page_returns:
  "(\<forall>r \<in> set filtered_df. 0 \<le> nota_inovacao r) \<Longrightarrow>
     \<exists>out. render_sector_page filtered_df selected = Inr out"
  by (auto simp: render_sector_page_def Let_def list_ex_iff not_less [symmetric])

section \<open>The correlation matrix of the trends page\<close>

lemma cs_step:
  fixes s A B u v :: real
  assumes "s\<^sup>2 \<le> A * B" "0 \<le> A" "0 \<le> B"
  shows "(u * v + s)\<^sup>2 \<le> (u\<^sup>2 + A) * (v\<^sup>2 + B)"
proof -
  let ?p = "u\<^sup>2 * B" and ?q = "A * v\<^sup>2"
  have pq: "0 \<le> ?p + ?q" using assms by simp
  have "(2 * u * v * s)\<^sup>2 = 4 * (u\<^sup>2 * v\<^sup>2) * s\<^sup>2"
    by (simp add: power_mult_distrib)
  also have "\<dots> \<le> 4 * (u\<^sup>2 * v\<^sup>2) * (A * B)"
    by (rule mult_left_mono) (use assms in simp_all)
  also have "\<dots> = 4 * ?p * ?q" by simp
  also have "\<dots> \<le> (?p + ?q)\<^sup>2"
  proof -
    have "4 * p * q \<le> (p + q)\<^sup>2" for p q :: real
      using sum_squares_bound [of p q] by (simp add: power2_sum)
    then show ?thesis .
  qed
  finally have "2 * u * v * s \<le> ?p + ?q"
    using pq by (rule_tac power2_le_imp_le)
  moreover have "(u\<^sup>2 + A) * (v\<^sup>2 + B) - (u * v + s)\<^sup>2 = (?p + ?q - 2 * u * v * s) + (A * B - s\<^sup>2)"
    by (simp add: power2_eq_square algebra_simps)
  ultimately show ?thesis using assms(1) by linarith
qed

lemma cauchy_schwarz_zip:
  "length xs = length ys \<Longrightarrow>
     (sum_list (map (\<lambda>xy. (fst xy - a) * (snd xy - b)) (zip xs ys)))\<^sup>2
       \<le> sum_list (map (\<lambda>x. (x - a)\<^sup>2) xs) * sum_list (map (\<lambda>y. (y - (b::real))\<^sup>2) ys)"
proof (induction xs ys rule: list_induct2)
  case Nil
  show ?case by simp
next
  case (Cons x xs y ys)
  have A: "0 \<le> sum_list (map (\<lambda>x. (x - a)\<^sup>2) xs)" by (rule sum_list_nonneg) auto
  have B: "0 \<le> sum_list (map (\<lambda>y. (y - b)\<^sup>2) ys)" by (rule sum_list_nonneg) auto
  show ?case using cs_step [OF Cons.IH A B, of "x - a" "y - b"] by simp
qed

lemma cov_zip_sym:
  "length xs = length ys \<Longrightarrow>
     sum_list (map (\<lambda>xy. (fst xy - a) * (snd xy - b)) (zip xs ys))
       = sum_list (map (\<lambda>xy. (fst xy - b) * (snd xy - (a::real))) (zip ys xs))"
  by (induction xs ys rule: list_induct2) (simp_all add: mult.commute)

lemma cov_zip_self:
  "sum_list (map (\<lambda>xy. (fst xy - m) * (snd xy - m)) (zip xs xs)) = sum_list (map (\<lambda>x. (x - (m::real))\<^sup>2) xs)"
  by (induction xs) (simp_all add: power2_eq_square)

lemma ssqdm_nonneg: "0 \<le> ssqdm xs"
  unfolding ssqdm_def Let_def by (rule sum_list_nonneg) auto

lemma pearson_sym: "length xs = length ys \<Longrightarrow> pearson xs ys = pearson ys xs"
  using cov_zip_sym [of xs ys "sum_list xs / real (length xs)" "sum_list ys / real (length ys)"]
  by (simp add: pearson_def Let_def mult.commute)

lemma pearson_bounds:
  assumes len: "length xs = length ys" and v: "pearson xs ys = Some v"
  shows "- 1 \<le> v \<and> v \<le> 1"
proof -
  let ?mx = "sum_list xs / real (length xs)" and ?my = "sum_list ys / real (length xs)"
  let ?c = "sum_list (map (\<lambda>xy. (fst xy - ?mx) * (snd xy - ?my)) (zip xs ys))"
  let ?d = "sqrt (ssqdm xs * ssqdm ys)"
  from v have d: "?d \<noteq> 0" and veq: "v = ?c / ?d"
    by (auto simp: pearson_def Let_def split: if_splits)
  have "0 \<le> ?d" by (simp add: ssqdm_nonneg)
  with d have dpos: "0 < ?d" by linarith
  have "?c\<^sup>2 \<le> ssqdm xs * ssqdm ys"
    using cauchy_schwarz_zip [OF len, of ?mx ?my] len by (simp add: ssqdm_def Let_def)
  then have "sqrt (?c\<^sup>2) \<le> ?d" by (rule real_sqrt_le_mono)
  then have "\<bar>?c\<bar> \<le> ?d" by simp
  then have "\<bar>v\<bar> \<le> 1" using dpos by (simp add: veq)
  then show ?thesis by linarith
qed

lemma pearson_None_iff:
  "pearson xs ys = None \<longleftrightarrow> xs = [] \<or> ssqdm xs = 0 \<or> ssqdm ys = 0"
  by (auto simp: pearson_def Let_def)

lemma pearson_diag: "ssqdm xs \<noteq> 0 \<Longrightarrow> xs \<noteq> [] \<Longrightarrow> pearson xs xs = Some 1"
  using ssqdm_nonneg [of xs] cov_zip_self [of "sum_list xs / real (length xs)" xs]
  by (simp add: pearson_def Let_def ssqdm_def)

lemma corr_nth:
  "i < length cols \<Longrightarrow> j < length cols \<Longrightarrow> corr cols ! i ! j = pearson (cols ! i) (cols ! j)"
  by (simp add: corr_def)

lemma length_numeric_cols: "length (numeric_cols df) = 4"
  by (simp add: numeric_cols_def)

lemma length_numeric_col: "i < 4 \<Longrightarrow> length (numeric_cols df ! i) = length df"
  by (auto simp: numeric_cols_def numeral_eq_Suc less_Suc_eq)

lemma series_var_nonzero:
  "series_var xs = Some v \<Longrightarrow> v \<noteq> 0 \<Longrightarrow> xs \<noteq> [] \<and> ssqdm xs \<noteq> 0"
  by (auto simp: series_var_def split: if_splits)

lemma series_var_zero: "series_var xs = Some 0 \<Longrightarrow> ssqdm xs = 0"
  by (auto simp: series_var_def split: if_splits)

text \<open>
  C7. The correlation matrix of the four numeric columns, in exact arithmetic: the
  entry of columns \<open>i\<close> and \<open>j\<close> is the entry of \<open>j\<close> and \<open>i\<close>; an entry that has a value
  has it between -1 and 1; the diagonal entry of a column whose variance is not zero is
  1; and an entry of a column whose variance is zero has no value (NaN).
\<close>

theorem corr_matrix_properties:
  assumes "i < 4" and "j < 4"
  shows "corr (numeric_cols df) ! i ! j = corr (numeric_cols df) ! j ! i
    \<and> (\<forall>v. corr (numeric_cols df) ! i ! j = Some v \<longrightarrow> - 1 \<le> v \<and> v \<le> 1)
    \<and> ((\<exists>v. series_var (numeric_cols df ! i) = Some v \<and> v \<noteq> 0)
          \<longrightarrow> corr (numeric_cols df) ! i ! i = Some 1)
    \<and> (series_var (numeric_cols df ! i) = Some 0 \<or> series_var (numeric_cols df ! j) = Some 0
          \<longrightarrow> corr (numeric_cols df) ! i ! j = None)"
proof -
  let ?x = "numeric_cols df ! i" and ?y = "numeric_cols df ! j"
  have len: "length ?x = length ?y"
    using assms by (simp add: length_numeric_col)
  have ij: "corr (numeric_cols df) ! i ! j = pearson ?x ?y"
    and ji: "corr (numeric_cols df) ! j ! i = pearson ?y ?x"
    and ii: "corr (numeric_cols df) ! i ! i = pearson ?x ?x"
    using assms by (simp_all add: corr_nth length_numeric_cols)
  have sym: "corr (numeric_cols df) ! i ! j = corr (numeric_cols df) ! j ! i"
    unfolding ij ji by (rule pearson_sym [OF len])
  have bnd: "\<forall>v. corr (numeric_cols df) ! i ! j = Some v \<longrightarrow> - 1 \<le> v \<and> v \<le> 1"
    unfolding ij using pearson_bounds [OF len] by blast
  have diag: "(\<exists>v. series_var ?x = Some v \<and> v \<noteq> 0) \<longrightarrow> corr (numeric_cols df) ! i ! i = Some 1"
    unfolding ii using series_var_nonzero [of ?x] pearson_diag [of ?x] by blast
  have nan: "series_var ?x = Some 0 \<or> series_var ?y = Some 0 \<longrightarrow> corr (numeric_cols df) ! i ! j = None"
    unfolding ij using series_var_zero [of ?x] series_var_zero [of ?y]
    by (auto simp: pearson_None_iff)
  from sym bnd diag nan show ?thesis by blast
qed

theorem corr_matrix_properties_witness:
  "(0::nat) < 4 \<and> (3::nat) < 4
   \<and> corr (numeric_cols [ex_C, ex_A, ex_B]) ! 0 ! 3 = Some 1
   \<and> corr (numeric_cols [ex_C, ex_A, ex_B]) ! 3 ! 0 = Some 1
   \<and> series_var (numeric_cols [ex_C, ex_A, ex_B] ! 0) = Some 1
   \<and> corr (numeric_cols [ex_C, ex_A, ex_B]) ! 0 ! 0 = Some 1
   \<and> series_var (numeric_cols [ex_A, ex_A] ! 3) = Some 0
   \<and> corr (numeric_cols [ex_A, ex_A]) ! 0 ! 3 = None"
  using corr_matrix_properties [of 0 3 "[ex_C, ex_A, ex_B]"]
        corr_matrix_properties [of 0 3 "[ex_A, ex_A]"]
  by (simp add: corr_def pearson_def series_var_def ssqdm_def Let_def numeric_cols_def
        ex_A_def ex_B_def ex_C_def)

end
